theory Spec2Isabelle
  imports Complex_Main "HOL-Library.Sublist"
begin

section \<open>The risk agent (ai-services/omni-axis-risk-agent/main.py)\<close>

text \<open>
  The embedding follows \<^verbatim>\<open>main.py\<close> of the risk agent function by function.
  Conventions:
  \<^item> A Python \<^verbatim>\<open>float\<close> is a \<^typ>\<open>real\<close> and its arithmetic is exact: the decimal
    literals of the source (\<^verbatim>\<open>0.2\<close>, \<^verbatim>\<open>0.15\<close>, ...) denote the decimal fractions
    they spell, and binary64 rounding, NaN and the infinities are not modelled.
  \<^item> A Python \<^verbatim>\<open>int\<close> is an \<^typ>\<open>int\<close>, a \<^verbatim>\<open>str\<close> a \<^typ>\<open>string\<close>, a dict a map.
  \<^item> The Redis server is an explicit store that every operation takes and returns.
    The store is assumed reachable; a list element is the record that
    \<^verbatim>\<open>json.dumps\<close> serialises and \<^verbatim>\<open>json.loads\<close> reads back.
\<close>

subsection \<open>Configuration and request models\<close>

text \<open>\<^verbatim>\<open>RISK_THRESHOLDS\<close> (lines 48-53).\<close>

definition RISK_THRESHOLDS :: "string \<rightharpoonup> real" where
  "RISK_THRESHOLDS =
     [''low'' \<mapsto> 0.3, ''medium'' \<mapsto> 0.6, ''high'' \<mapsto> 0.8, ''critical'' \<mapsto> 0.95]"

text \<open>
  The subscript \<^verbatim>\<open>RISK_THRESHOLDS[k]\<close>. The source only subscripts with the literal
  keys \<^verbatim>\<open>"critical"\<close>, \<^verbatim>\<open>"high"\<close> and \<^verbatim>\<open>"medium"\<close>, which are present
  (lemma \<open>RISK_THRESHOLDS_dom\<close>), so no \<^verbatim>\<open>KeyError\<close> arises.
\<close>

definition threshold :: "string \<Rightarrow> real" where
  "threshold k = the (RISK_THRESHOLDS k)"

record UserRiskData =
  user_id :: string
  ip_address :: string
  transaction_count :: int
  total_volume :: real
  geolocation :: "(string \<rightharpoonup> string) option"
  device_fingerprint :: "string option"
  kyc_status :: string
  account_age_days :: int
  failed_login_attempts :: int
  suspicious_activity_count :: int

text \<open>
  The fields of a naive \<^verbatim>\<open>datetime\<close> (no time zone); the scorer reads
  \<^verbatim>\<open>hour\<close>, and \<^verbatim>\<open>isoformat\<close> prints all of them.
\<close>

record datetime =
  year :: nat
  month :: nat
  day :: nat
  hour :: nat
  minute :: nat
  second :: nat
  microsecond :: nat

text \<open>
  \<^verbatim>\<open>TransactionRiskData\<close>. The fields \<^verbatim>\<open>user_id\<close>, \<^verbatim>\<open>ip_address\<close> and
  \<^verbatim>\<open>geolocation\<close> carry the prefix \<open>tx_\<close> here, since a record field is a
  constant of the theory and \<open>UserRiskData\<close> has taken the names.
\<close>

record TransactionRiskData =
  transaction_id :: string
  tx_user_id :: string
  amount :: real
  asset_type :: string
  timestamp :: datetime
  tx_ip_address :: string
  tx_geolocation :: "(string \<rightharpoonup> string) option"
  payment_method :: string
  is_cross_border :: bool

record RiskAssessment =
  risk_score :: real
  risk_level :: string
  flags :: "string list"
  recommendations :: "string list"
  confidence :: real

subsection \<open>IP reputation\<close>

text \<open>The values of the dicts the source builds.\<close>

datatype pyval = PyBool bool | PyInt int | PyFloat real | PyStr string

text \<open>
  \<^verbatim>\<open>d.get(k, default)\<close> read as a number (a Python \<^verbatim>\<open>bool\<close> is the number 0 or 1;
  the source never stores an int or a string under a key it reads this way).
\<close>

definition get_float :: "(string \<rightharpoonup> pyval) \<Rightarrow> string \<Rightarrow> real \<Rightarrow> real" where
  "get_float d k dflt =
     (case d k of
        None \<Rightarrow> dflt
      | Some (PyFloat v) \<Rightarrow> v
      | Some (PyInt i) \<Rightarrow> of_int i
      | Some (PyBool b) \<Rightarrow> (if b then 1 else 0)
      | Some (PyStr s) \<Rightarrow> dflt)"

text \<open>
  \<^verbatim>\<open>check_ip_reputation\<close> (lines 131-150). \<^verbatim>\<open>str.startswith\<close> with a tuple is the
  disjunction of the prefix tests. Nothing in the \<^verbatim>\<open>try\<close> body can raise on a
  \<^verbatim>\<open>str\<close>, so the \<^verbatim>\<open>except\<close> branch is never taken and the function is total.
\<close>

definition check_ip_reputation :: "string \<Rightarrow> (string \<rightharpoonup> pyval)" where
  "check_ip_reputation ip =
     (let reputation =
            [''is_tor'' \<mapsto> PyBool False, ''is_vpn'' \<mapsto> PyBool False,
             ''is_proxy'' \<mapsto> PyBool False, ''is_malicious'' \<mapsto> PyBool False,
             ''reputation_score'' \<mapsto> PyFloat 0.5]
      in if prefix ''192.168.'' ip \<or> prefix ''10.'' ip \<or> prefix ''172.'' ip
            \<or> ip = ''127.0.0.1''
         then reputation(''reputation_score'' \<mapsto> PyFloat 0.8)
         else reputation)"

subsection \<open>The user scorer\<close>

text \<open>
  The three lists \<^verbatim>\<open>flags\<close>, \<^verbatim>\<open>recommendations\<close> and \<^verbatim>\<open>risk_factors\<close> that both
  scorers append to.
\<close>

record locals =
  l_flags :: "string list"
  l_recommendations :: "string list"
  l_risk_factors :: "real list"

definition no_locals :: locals where
  "no_locals = \<lparr>l_flags = [], l_recommendations = [], l_risk_factors = []\<rparr>"

definition flag :: "string \<Rightarrow> locals \<Rightarrow> locals" where
  "flag f s = s\<lparr>l_flags := l_flags s @ [f]\<rparr>"

definition recommend :: "string \<Rightarrow> locals \<Rightarrow> locals" where
  "recommend r s = s\<lparr>l_recommendations := l_recommendations s @ [r]\<rparr>"

definition factor :: "real \<Rightarrow> locals \<Rightarrow> locals" where
  "factor x s = s\<lparr>l_risk_factors := l_risk_factors s @ [x]\<rparr>"

text \<open>Risk factor 1: IP reputation (lines 166-172).\<close>

definition ip_risk_of :: "(string \<rightharpoonup> pyval) \<Rightarrow> real" where
  "ip_risk_of ip_reputation = 1.0 - get_float ip_reputation ''reputation_score'' 0.5"

definition ip_reputation_factor :: "(string \<rightharpoonup> pyval) \<Rightarrow> locals \<Rightarrow> locals" where
  "ip_reputation_factor ip_reputation s =
     (let ip_risk = ip_risk_of ip_reputation;
          s = factor (ip_risk * 0.2) s
      in if ip_risk > 0.7
         then recommend ''Verify user identity through additional channels''
                (flag ''Suspicious IP address'' s)
         else s)"

text \<open>Risk factor 2: account age (lines 174-186).\<close>

definition account_age_factor :: "UserRiskData \<Rightarrow> locals \<Rightarrow> locals" where
  "account_age_factor user_data s =
     (let (account_age_risk, s) =
            (if account_age_days user_data < 1
             then (0.8, recommend ''Apply enhanced monitoring for new accounts''
                          (flag ''New account (less than 1 day old)'' s))
             else if account_age_days user_data < 7 then (0.6, s)
             else if account_age_days user_data < 30 then (0.3, s)
             else (0.1, s))
      in factor (account_age_risk * 0.15) s)"

text \<open>Risk factor 3: transaction patterns (lines 188-197).\<close>

definition transaction_pattern_factor :: "UserRiskData \<Rightarrow> locals \<Rightarrow> locals" where
  "transaction_pattern_factor user_data s =
     (let (tx_risk, s) =
            (if transaction_count user_data > 50
             then (0.7, flag ''High frequency trading pattern'' s)
             else if transaction_count user_data > 20 then (0.4, s)
             else (0.1, s))
      in factor (tx_risk * 0.2) s)"

text \<open>Risk factor 4: volume analysis (lines 199-209).\<close>

definition volume_factor :: "UserRiskData \<Rightarrow> locals \<Rightarrow> locals" where
  "volume_factor user_data s =
     (let (volume_risk, s) =
            (if total_volume user_data > 100000
             then (0.6, recommend ''Verify source of funds''
                          (flag ''High volume transactions'' s))
             else if total_volume user_data > 50000 then (0.4, s)
             else (0.1, s))
      in factor (volume_risk * 0.15) s)"

text \<open>Risk factor 5: failed login attempts (lines 211-221).\<close>

definition failed_login_factor :: "UserRiskData \<Rightarrow> locals \<Rightarrow> locals" where
  "failed_login_factor user_data s =
     (let (login_risk, s) =
            (if failed_login_attempts user_data > 5
             then (0.8, recommend ''Require password reset and 2FA''
                          (flag ''Multiple failed login attempts'' s))
             else if failed_login_attempts user_data > 2 then (0.4, s)
             else (0.1, s))
      in factor (login_risk * 0.1) s)"

text \<open>Risk factor 6: KYC status (lines 223-234).\<close>

definition kyc_factor :: "UserRiskData \<Rightarrow> locals \<Rightarrow> locals" where
  "kyc_factor user_data s =
     (let (kyc_risk, s) =
            (if kyc_status user_data = ''rejected''
             then (0.9, recommend ''Manual review required''
                          (flag ''KYC verification failed'' s))
             else if kyc_status user_data = ''pending''
             then (0.5, flag ''KYC verification pending'' s)
             else (0.1, s))
      in factor (kyc_risk * 0.2) s)"

text \<open>
  The final score (lines 236-238 and 342-344): \<^verbatim>\<open>min(max(sum(risk_factors), 0.0), 1.0)\<close>.
\<close>

definition final_score :: "locals \<Rightarrow> real" where
  "final_score s = min (max (sum_list (l_risk_factors s)) 0.0) 1.0"

text \<open>
  The risk level (lines 240-248 and 346-354; the two scorers carry the same chain).
\<close>

definition determine_risk_level :: "real \<Rightarrow> string" where
  "determine_risk_level score =
     (if score \<ge> threshold ''critical'' then ''critical''
      else if score \<ge> threshold ''high'' then ''high''
      else if score \<ge> threshold ''medium'' then ''medium''
      else ''low'')"

text \<open>The general recommendations of the user scorer (lines 250-256).\<close>

definition general_recommendations :: "string \<Rightarrow> locals \<Rightarrow> locals" where
  "general_recommendations level s =
     (if level \<in> set [''high'', ''critical'']
      then recommend ''Escalate to compliance team''
             (recommend ''Block transactions until manual review'' s)
      else if level = ''medium''
      then recommend ''Require additional verification''
             (recommend ''Apply enhanced monitoring'' s)
      else s)"

text \<open>
  The body of \<^verbatim>\<open>calculate_user_risk_score\<close> (lines 152-266) after the call of
  \<^verbatim>\<open>check_ip_reputation\<close>, with the reputation dict as an argument. The dict
  \<^verbatim>\<open>geo_data\<close> of lines 159-162 is assigned and never read, and
  \<^verbatim>\<open>get_ip_geolocation\<close> catches every exception of its request, so the lookup has
  no part in the result and is left out.
\<close>

definition user_risk_assessment :: "(string \<rightharpoonup> pyval) \<Rightarrow> UserRiskData \<Rightarrow> RiskAssessment" where
  "user_risk_assessment ip_reputation user_data =
     (let s = ip_reputation_factor ip_reputation no_locals;
          s = account_age_factor user_data s;
          s = transaction_pattern_factor user_data s;
          s = volume_factor user_data s;
          s = failed_login_factor user_data s;
          s = kyc_factor user_data s;
          score = final_score s;
          level = determine_risk_level score;
          s = general_recommendations level s
      in \<lparr>risk_score = score, risk_level = level, flags = l_flags s,
          recommendations = l_recommendations s, confidence = 0.8\<rparr>)"

definition calculate_user_risk_score :: "UserRiskData \<Rightarrow> RiskAssessment" where
  "calculate_user_risk_score user_data =
     user_risk_assessment (check_ip_reputation (ip_address user_data)) user_data"

subsection \<open>The history store\<close>

text \<open>
  The part of Redis the service uses: list values under string keys, and a time to live
  (in seconds) per key. Time does not pass in the model: \<open>ttl\<close> records what
  \<^verbatim>\<open>EXPIRE\<close> last set, and no key is ever removed for age. A list element is the dict
  whose JSON text the source pushes.
\<close>

record redis =
  lists :: "string \<rightharpoonup> (string \<rightharpoonup> pyval) list"
  ttl :: "string \<rightharpoonup> nat"

definition empty_redis :: redis where
  "empty_redis = \<lparr>lists = Map.empty, ttl = Map.empty\<rparr>"

text \<open>
  The inclusive range \<open>start..stop\<close> of a list, as \<^verbatim>\<open>LRANGE\<close> and \<^verbatim>\<open>LTRIM\<close>
  read it: a negative index counts from the end, and a range that reaches outside the
  list is cut to it.
\<close>

definition list_range :: "'a list \<Rightarrow> int \<Rightarrow> int \<Rightarrow> 'a list" where
  "list_range xs start stop =
     (let n = int (length xs);
          a = max 0 (if start < 0 then n + start else start);
          b = min (n - 1) (if stop < 0 then n + stop else stop)
      in if a > b then [] else take (nat (b - a + 1)) (drop (nat a) xs))"

definition lrange :: "redis \<Rightarrow> string \<Rightarrow> int \<Rightarrow> int \<Rightarrow> (string \<rightharpoonup> pyval) list" where
  "lrange r key start stop =
     (case lists r key of None \<Rightarrow> [] | Some xs \<Rightarrow> list_range xs start stop)"

definition lpush :: "redis \<Rightarrow> string \<Rightarrow> (string \<rightharpoonup> pyval) \<Rightarrow> redis" where
  "lpush r key v =
     r\<lparr>lists := (lists r)(key \<mapsto> (case lists r key of None \<Rightarrow> [v] | Some xs \<Rightarrow> v # xs))\<rparr>"

text \<open>\<^verbatim>\<open>LTRIM\<close> removes a key whose list it has emptied.\<close>

definition ltrim :: "redis \<Rightarrow> string \<Rightarrow> int \<Rightarrow> int \<Rightarrow> redis" where
  "ltrim r key start stop =
     (case lists r key of
        None \<Rightarrow> r
      | Some xs \<Rightarrow>
          (let ys = list_range xs start stop
           in if ys = [] then r\<lparr>lists := (lists r)(key := None), ttl := (ttl r)(key := None)\<rparr>
              else r\<lparr>lists := (lists r)(key \<mapsto> ys)\<rparr>))"

text \<open>\<^verbatim>\<open>EXPIRE\<close> sets the time to live of a key that exists.\<close>

definition expire :: "redis \<Rightarrow> string \<Rightarrow> nat \<Rightarrow> redis" where
  "expire r key seconds =
     (case lists r key of None \<Rightarrow> r | Some xs \<Rightarrow> r\<lparr>ttl := (ttl r)(key \<mapsto> seconds)\<rparr>)"

subsection \<open>The transaction scorer\<close>

text \<open>
  \<^verbatim>\<open>datetime.isoformat()\<close> of a naive datetime: \<^verbatim>\<open>YYYY-MM-DDTHH:MM:SS\<close>, followed by
  \<^verbatim>\<open>.ffffff\<close> when the microseconds are not zero.
\<close>

definition digit_char :: "nat \<Rightarrow> char" where
  "digit_char n = ''0123456789'' ! (n mod 10)"

text \<open>The last \<open>k\<close> decimal digits of \<open>n\<close>, with leading zeros.\<close>

fun digits :: "nat \<Rightarrow> nat \<Rightarrow> string" where
  "digits 0 n = []"
| "digits (Suc k) n = digits k (n div 10) @ [digit_char n]"

definition isoformat :: "datetime \<Rightarrow> string" where
  "isoformat t =
     digits 4 (year t) @ ''-'' @ digits 2 (month t) @ ''-'' @ digits 2 (day t) @ ''T''
     @ digits 2 (hour t) @ '':'' @ digits 2 (minute t) @ '':'' @ digits 2 (second t)
     @ (if microsecond t = 0 then [] else ''.'' @ digits 6 (microsecond t))"

text \<open>Risk factor 1: transaction amount (lines 278-288).\<close>

definition amount_factor :: "TransactionRiskData \<Rightarrow> locals \<Rightarrow> locals" where
  "amount_factor tx_data s =
     (let (amount_risk, s) =
            (if amount tx_data > 50000
             then (0.8, recommend ''Verify source of funds''
                          (flag ''Large transaction amount'' s))
             else if amount tx_data > 10000 then (0.5, s)
             else (0.2, s))
      in factor (amount_risk * 0.3) s)"

text \<open>Risk factor 2: transaction frequency (lines 290-299).\<close>

definition frequency_factor :: "(string \<rightharpoonup> pyval) list \<Rightarrow> locals \<Rightarrow> locals" where
  "frequency_factor recent_transactions s =
     (let (frequency_risk, s) =
            (if length recent_transactions \<ge> 5
             then (0.7, flag ''High transaction frequency'' s)
             else if length recent_transactions \<ge> 3 then (0.4, s)
             else (0.1, s))
      in factor (frequency_risk * 0.2) s)"

text \<open>Risk factor 3: cross-border transaction (lines 301-309).\<close>

definition cross_border_factor :: "TransactionRiskData \<Rightarrow> locals \<Rightarrow> locals" where
  "cross_border_factor tx_data s =
     (let (cross_border_risk, s) =
            (if is_cross_border tx_data
             then (0.6, recommend ''Verify compliance with international regulations''
                          (flag ''Cross-border transaction'' s))
             else (0.2, s))
      in factor (cross_border_risk * 0.15) s)"

text \<open>Risk factor 4: time-based analysis (lines 311-319).\<close>

definition time_factor :: "TransactionRiskData \<Rightarrow> locals \<Rightarrow> locals" where
  "time_factor tx_data s =
     (let current_hour = hour (timestamp tx_data);
          (time_risk, s) =
            (if current_hour < 6 \<or> current_hour > 22
             then (0.5, flag ''Transaction outside business hours'' s)
             else (0.1, s))
      in factor (time_risk * 0.1) s)"

text \<open>Risk factor 5: payment method (lines 321-330).\<close>

definition payment_method_factor :: "TransactionRiskData \<Rightarrow> locals \<Rightarrow> locals" where
  "payment_method_factor tx_data s =
     (let (payment_risk, s) =
            (if payment_method tx_data \<in> set [''crypto'', ''anonymous'']
             then (0.6, flag ''High-risk payment method'' s)
             else if payment_method tx_data \<in> set [''credit_card'', ''bank_transfer'']
             then (0.2, s)
             else (0.3, s))
      in factor (payment_risk * 0.15) s)"

text \<open>Risk factor 6: asset type (lines 332-340).\<close>

definition asset_type_factor :: "TransactionRiskData \<Rightarrow> locals \<Rightarrow> locals" where
  "asset_type_factor tx_data s =
     (let high_risk_assets = [''art'', ''luxury'', ''collectibles''];
          (asset_risk, s) =
            (if asset_type tx_data \<in> set high_risk_assets
             then (0.5, flag ''High-risk asset type'' s)
             else (0.2, s))
      in factor (asset_risk * 0.1) s)"

text \<open>The key \<^verbatim>\<open>f"user_tx_history:{user_id}"\<close> (lines 275 and 457).\<close>

definition history_key :: "string \<Rightarrow> string" where
  "history_key uid = ''user_tx_history:'' @ uid"

text \<open>The dict \<^verbatim>\<open>tx_record\<close> (lines 357-361).\<close>

definition tx_record :: "TransactionRiskData \<Rightarrow> real \<Rightarrow> (string \<rightharpoonup> pyval)" where
  "tx_record tx_data score =
     [''amount'' \<mapsto> PyFloat (amount tx_data),
      ''timestamp'' \<mapsto> PyStr (isoformat (timestamp tx_data)),
      ''risk_score'' \<mapsto> PyFloat score]"

text \<open>
  \<^verbatim>\<open>calculate_transaction_risk_score\<close> (lines 268-374): the assessment and the store
  after the three writes.
\<close>

definition calculate_transaction_risk_score ::
  "redis \<Rightarrow> TransactionRiskData \<Rightarrow> RiskAssessment \<times> redis" where
  "calculate_transaction_risk_score redis_client tx_data =
     (let user_history_key = history_key (tx_user_id tx_data);
          recent_transactions = lrange redis_client user_history_key 0 9;
          s = amount_factor tx_data no_locals;
          s = frequency_factor recent_transactions s;
          s = cross_border_factor tx_data s;
          s = time_factor tx_data s;
          s = payment_method_factor tx_data s;
          s = asset_type_factor tx_data s;
          score = final_score s;
          level = determine_risk_level score;
          redis_client = lpush redis_client user_history_key (tx_record tx_data score);
          redis_client = ltrim redis_client user_history_key 0 19;
          redis_client = expire redis_client user_history_key (86400 * 30)
      in (\<lparr>risk_score = score, risk_level = level, flags = l_flags s,
           recommendations = l_recommendations s, confidence = 0.75\<rparr>,
          redis_client))"

subsection \<open>The stats reporter\<close>

text \<open>The loop of lines 468-477 over the stored entries.\<close>

fun stats_loop :: "(string \<rightharpoonup> pyval) list \<Rightarrow> real list \<times> int \<Rightarrow> real list \<times> int" where
  "stats_loop [] acc = acc"
| "stats_loop (tx_data # rest) (risk_scores, high_risk_count) =
     (let score = get_float tx_data ''risk_score'' 0.0;
          risk_scores = risk_scores @ [score];
          high_risk_count =
            (if score \<ge> threshold ''high'' then high_risk_count + 1 else high_risk_count)
      in stats_loop rest (risk_scores, high_risk_count))"

text \<open>\<^verbatim>\<open>np.mean\<close> of a list that is not empty.\<close>

definition mean :: "real list \<Rightarrow> real" where
  "mean xs = sum_list xs / real (length xs)"

text \<open>
  \<^verbatim>\<open>get_user_risk_stats\<close> (lines 450-492): the dict the endpoint returns. In the
  trend, \<^verbatim>\<open>risk_scores[0]\<close> is read only when the list has more than one element.
\<close>

definition get_user_risk_stats :: "redis \<Rightarrow> string \<Rightarrow> (string \<rightharpoonup> pyval)" where
  "get_user_risk_stats redis_client uid =
     (let transactions = lrange redis_client (history_key uid) 0 (- 1)
      in if transactions = []
         then [''user_id'' \<mapsto> PyStr uid,
               ''transaction_count'' \<mapsto> PyInt 0,
               ''average_risk_score'' \<mapsto> PyFloat 0.0,
               ''high_risk_transactions'' \<mapsto> PyInt 0]
         else
           (let (risk_scores, high_risk_count) = stats_loop transactions ([], 0)
            in [''user_id'' \<mapsto> PyStr uid,
                ''transaction_count'' \<mapsto> PyInt (int (length transactions)),
                ''average_risk_score'' \<mapsto>
                   PyFloat (if risk_scores \<noteq> [] then mean risk_scores else 0.0),
                ''high_risk_transactions'' \<mapsto> PyInt high_risk_count,
                ''risk_trend'' \<mapsto>
                   PyStr (if length risk_scores > 1 \<and> risk_scores ! 0 > last risk_scores
                          then ''increasing'' else ''stable'')]))"

subsection \<open>Derived quantities\<close>

text \<open>
  The value each scorer's local variable takes, as a function of the field it is computed
  from; the sum of the weighted factors; and the list of a user's stored entries. The
  facts below relate them to the scorers.
\<close>

definition account_age_risk :: "int \<Rightarrow> real" where
  "account_age_risk a = (if a < 1 then 0.8 else if a < 7 then 0.6 else if a < 30 then 0.3 else 0.1)"

definition tx_risk :: "int \<Rightarrow> real" where
  "tx_risk n = (if n > 50 then 0.7 else if n > 20 then 0.4 else 0.1)"

definition volume_risk :: "real \<Rightarrow> real" where
  "volume_risk v = (if v > 100000 then 0.6 else if v > 50000 then 0.4 else 0.1)"

definition login_risk :: "int \<Rightarrow> real" where
  "login_risk n = (if n > 5 then 0.8 else if n > 2 then 0.4 else 0.1)"

definition kyc_risk :: "string \<Rightarrow> real" where
  "kyc_risk k = (if k = ''rejected'' then 0.9 else if k = ''pending'' then 0.5 else 0.1)"

definition user_risk_sum :: "(string \<rightharpoonup> pyval) \<Rightarrow> UserRiskData \<Rightarrow> real" where
  "user_risk_sum rep d =
     ip_risk_of rep * 0.2 + account_age_risk (account_age_days d) * 0.15
     + tx_risk (transaction_count d) * 0.2 + volume_risk (total_volume d) * 0.15
     + login_risk (failed_login_attempts d) * 0.1 + kyc_risk (kyc_status d) * 0.2"

definition user_factors :: "(string \<rightharpoonup> pyval) \<Rightarrow> UserRiskData \<Rightarrow> locals" where
  "user_factors rep d =
     kyc_factor d (failed_login_factor d (volume_factor d (transaction_pattern_factor d
       (account_age_factor d (ip_reputation_factor rep no_locals)))))"

definition amount_risk :: "real \<Rightarrow> real" where
  "amount_risk a = (if a > 50000 then 0.8 else if a > 10000 then 0.5 else 0.2)"

definition frequency_risk :: "nat \<Rightarrow> real" where
  "frequency_risk n = (if n \<ge> 5 then 0.7 else if n \<ge> 3 then 0.4 else 0.1)"

definition cross_border_risk :: "bool \<Rightarrow> real" where
  "cross_border_risk b = (if b then 0.6 else 0.2)"

definition time_risk :: "nat \<Rightarrow> real" where
  "time_risk h = (if h < 6 \<or> h > 22 then 0.5 else 0.1)"

definition payment_risk :: "string \<Rightarrow> real" where
  "payment_risk m =
     (if m = ''crypto'' \<or> m = ''anonymous'' then 0.6
      else if m = ''credit_card'' \<or> m = ''bank_transfer'' then 0.2 else 0.3)"

definition asset_risk :: "string \<Rightarrow> real" where
  "asset_risk a = (if a = ''art'' \<or> a = ''luxury'' \<or> a = ''collectibles'' then 0.5 else 0.2)"

definition tx_risk_sum :: "nat \<Rightarrow> TransactionRiskData \<Rightarrow> real" where
  "tx_risk_sum n t =
     amount_risk (amount t) * 0.3 + frequency_risk n * 0.2
     + cross_border_risk (is_cross_border t) * 0.15 + time_risk (hour (timestamp t)) * 0.1
     + payment_risk (payment_method t) * 0.15 + asset_risk (asset_type t) * 0.1"

definition tx_factors :: "(string \<rightharpoonup> pyval) list \<Rightarrow> TransactionRiskData \<Rightarrow> locals" where
  "tx_factors recent t =
     asset_type_factor t (payment_method_factor t (time_factor t (cross_border_factor t
       (frequency_factor recent (amount_factor t no_locals)))))"

definition window :: "redis \<Rightarrow> string \<Rightarrow> (string \<rightharpoonup> pyval) list" where
  "window r uid = (case lists r (history_key uid) of None \<Rightarrow> [] | Some xs \<Rightarrow> xs)"

subsection \<open>The spec's reading, and sample requests\<close>

text \<open>
  The classification the spec states: its thresholds table
  \<^verbatim>\<open>{low: 0.0, medium: 0.3, high: 0.6, critical: 0.8}\<close>, the level being the highest
  threshold the score has reached.
\<close>

definition spec_risk_level :: "real \<Rightarrow> string" where
  "spec_risk_level score =
     (if score \<ge> 0.8 then ''critical'' else if score \<ge> 0.6 then ''high''
      else if score \<ge> 0.3 then ''medium'' else ''low'')"

text \<open>
  A user in the top bucket of every factor of the user scorer, at a public address.
\<close>

definition worst_user :: UserRiskData where
  "worst_user =
     \<lparr>user_id = ''u-1'', ip_address = ''203.0.113.7'', transaction_count = 60,
      total_volume = 150000, geolocation = None, device_fingerprint = None,
      kyc_status = ''rejected'', account_age_days = 0, failed_login_attempts = 6,
      suspicious_activity_count = 0\<rparr>"

text \<open>
  A transaction in the top bucket of every factor the request decides (large amount,
  crypto, cross-border, art, two o'clock at night), and one in the bottom bucket of each.
\<close>

definition night_time :: datetime where
  "night_time = \<lparr>year = 2024, month = 5, day = 17, hour = 2, minute = 30, second = 0,
                  microsecond = 0\<rparr>"

definition worst_tx :: TransactionRiskData where
  "worst_tx =
     \<lparr>transaction_id = ''t-2'', tx_user_id = ''u-1'', amount = 60000, asset_type = ''art'',
      timestamp = night_time, tx_ip_address = ''203.0.113.7'', tx_geolocation = None,
      payment_method = ''crypto'', is_cross_border = True\<rparr>"

definition noon :: datetime where
  "noon = \<lparr>year = 2024, month = 5, day = 16, hour = 12, minute = 0, second = 0,
            microsecond = 0\<rparr>"

definition small_tx :: TransactionRiskData where
  "small_tx =
     \<lparr>transaction_id = ''t-1'', tx_user_id = ''u-1'', amount = 100,
      asset_type = ''real_estate'', timestamp = noon, tx_ip_address = ''203.0.113.7'',
      tx_geolocation = None, payment_method = ''bank_transfer'', is_cross_border = False\<rparr>"


text \<open>A verified user with a clean record and an account five days old.\<close>

definition steady_user :: UserRiskData where
  "steady_user =
     \<lparr>user_id = ''u-2'', ip_address = ''198.51.100.4'', transaction_count = 5,
      total_volume = 1000, geolocation = None, device_fingerprint = None,
      kyc_status = ''verified'', account_age_days = 5, failed_login_attempts = 0,
      suspicious_activity_count = 0\<rparr>"



text \<open>The score of a stored entry, as the stats reporter reads it (line 473).\<close>

definition entry_score :: "(string \<rightharpoonup> pyval) \<Rightarrow> real" where
  "entry_score e = get_float e ''risk_score'' 0.0"

text \<open>The store after \<open>small_tx\<close> and then \<open>worst_tx\<close>, both of the user \<^verbatim>\<open>u-1\<close>.\<close>

definition two_evaluations :: redis where
  "two_evaluations =
     snd (calculate_transaction_risk_score
            (snd (calculate_transaction_risk_score empty_redis small_tx)) worst_tx)"






section \<open>Facts about the model\<close>

lemma RISK_THRESHOLDS_dom:
  "dom RISK_THRESHOLDS = {''low'', ''medium'', ''high'', ''critical''}"
  by (auto simp: RISK_THRESHOLDS_def)

lemma threshold_values:
  "threshold ''critical'' = 0.95" "threshold ''high'' = 0.8" "threshold ''medium'' = 0.6"
  by (simp_all add: threshold_def RISK_THRESHOLDS_def)

lemma locals_ops [simp]:
  "l_flags (flag f s) = l_flags s @ [f]"
  "l_recommendations (flag f s) = l_recommendations s"
  "l_risk_factors (flag f s) = l_risk_factors s"
  "l_flags (recommend r s) = l_flags s"
  "l_recommendations (recommend r s) = l_recommendations s @ [r]"
  "l_risk_factors (recommend r s) = l_risk_factors s"
  "l_flags (factor x s) = l_flags s"
  "l_recommendations (factor x s) = l_recommendations s"
  "l_risk_factors (factor x s) = l_risk_factors s @ [x]"
  by (simp_all add: flag_def recommend_def factor_def)

lemma no_locals_simps [simp]:
  "l_flags no_locals = []" "l_recommendations no_locals = []" "l_risk_factors no_locals = []"
  by (simp_all add: no_locals_def)

lemma in_set_if_single [simp]:
  "x \<in> set (if c then [y] else []) \<longleftrightarrow> c \<and> x = y"
  by auto

lemma check_ip_reputation_score:
  "get_float (check_ip_reputation ip) ''reputation_score'' 0.5 =
     (if prefix ''192.168.'' ip \<or> prefix ''10.'' ip \<or> prefix ''172.'' ip \<or> ip = ''127.0.0.1''
      then 0.8 else 0.5)"
  by (simp add: check_ip_reputation_def get_float_def)

lemma ip_risk_of_check:
  "ip_risk_of (check_ip_reputation ip) =
     (if prefix ''192.168.'' ip \<or> prefix ''10.'' ip \<or> prefix ''172.'' ip \<or> ip = ''127.0.0.1''
      then 0.2 else 0.5)"
  unfolding ip_risk_of_def check_ip_reputation_score by simp

lemma ip_reputation_factor_simps:
  "l_risk_factors (ip_reputation_factor rep s) = l_risk_factors s @ [ip_risk_of rep * 0.2]"
  "l_flags (ip_reputation_factor rep s) =
     l_flags s @ (if ip_risk_of rep > 0.7 then [''Suspicious IP address''] else [])"
  "l_recommendations (ip_reputation_factor rep s) =
     l_recommendations s @
       (if ip_risk_of rep > 0.7 then [''Verify user identity through additional channels''] else [])"
  by (simp_all add: ip_reputation_factor_def Let_def)

lemma account_age_factor_simps:
  "l_risk_factors (account_age_factor d s) =
     l_risk_factors s @ [account_age_risk (account_age_days d) * 0.15]"
  "l_flags (account_age_factor d s) =
     l_flags s @ (if account_age_days d < 1 then [''New account (less than 1 day old)''] else [])"
  "l_recommendations (account_age_factor d s) =
     l_recommendations s @
       (if account_age_days d < 1 then [''Apply enhanced monitoring for new accounts''] else [])"
  by (simp_all add: account_age_factor_def account_age_risk_def Let_def)

lemma transaction_pattern_factor_simps:
  "l_risk_factors (transaction_pattern_factor d s) =
     l_risk_factors s @ [tx_risk (transaction_count d) * 0.2]"
  "l_flags (transaction_pattern_factor d s) =
     l_flags s @ (if transaction_count d > 50 then [''High frequency trading pattern''] else [])"
  "l_recommendations (transaction_pattern_factor d s) = l_recommendations s"
  by (simp_all add: transaction_pattern_factor_def tx_risk_def Let_def)

lemma volume_factor_simps:
  "l_risk_factors (volume_factor d s) =
     l_risk_factors s @ [volume_risk (total_volume d) * 0.15]"
  "l_flags (volume_factor d s) =
     l_flags s @ (if total_volume d > 100000 then [''High volume transactions''] else [])"
  "l_recommendations (volume_factor d s) =
     l_recommendations s @ (if total_volume d > 100000 then [''Verify source of funds''] else [])"
  by (simp_all add: volume_factor_def volume_risk_def Let_def)

lemma failed_login_factor_simps:
  "l_risk_factors (failed_login_factor d s) =
     l_risk_factors s @ [login_risk (failed_login_attempts d) * 0.1]"
  "l_flags (failed_login_factor d s) =
     l_flags s @ (if failed_login_attempts d > 5 then [''Multiple failed login attempts''] else [])"
  "l_recommendations (failed_login_factor d s) =
     l_recommendations s @
       (if failed_login_attempts d > 5 then [''Require password reset and 2FA''] else [])"
  by (simp_all add: failed_login_factor_def login_risk_def Let_def)

lemma kyc_factor_simps:
  "l_risk_factors (kyc_factor d s) = l_risk_factors s @ [kyc_risk (kyc_status d) * 0.2]"
  "l_flags (kyc_factor d s) =
     l_flags s @ (if kyc_status d = ''rejected'' then [''KYC verification failed'']
                  else if kyc_status d = ''pending'' then [''KYC verification pending''] else [])"
  "l_recommendations (kyc_factor d s) =
     l_recommendations s @ (if kyc_status d = ''rejected'' then [''Manual review required''] else [])"
  by (simp_all add: kyc_factor_def kyc_risk_def Let_def)

lemmas user_block_simps =
  ip_reputation_factor_simps account_age_factor_simps transaction_pattern_factor_simps
  volume_factor_simps failed_login_factor_simps kyc_factor_simps

lemma user_factors_sum: "sum_list (l_risk_factors (user_factors rep d)) = user_risk_sum rep d"
  by (simp add: user_factors_def user_risk_sum_def user_block_simps)




lemma user_risk_assessment_score:
  "risk_score (user_risk_assessment rep d) = min (max (user_risk_sum rep d) 0) 1"
  using user_factors_sum [of rep d]
  by (simp add: user_risk_assessment_def Let_def final_score_def user_factors_def)

lemma user_risk_assessment_level:
  "risk_level (user_risk_assessment rep d) =
     determine_risk_level (risk_score (user_risk_assessment rep d))"
  by (simp add: user_risk_assessment_def Let_def)



lemma determine_risk_level_eq:
  "determine_risk_level x =
     (if x \<ge> 0.95 then ''critical'' else if x \<ge> 0.8 then ''high''
      else if x \<ge> 0.6 then ''medium'' else ''low'')"
  by (simp add: determine_risk_level_def threshold_values)




lemma amount_factor_simps:
  "l_risk_factors (amount_factor t s) = l_risk_factors s @ [amount_risk (amount t) * 0.3]"
  "l_flags (amount_factor t s) =
     l_flags s @ (if amount t > 50000 then [''Large transaction amount''] else [])"
  "l_recommendations (amount_factor t s) =
     l_recommendations s @ (if amount t > 50000 then [''Verify source of funds''] else [])"
  by (simp_all add: amount_factor_def amount_risk_def Let_def)

lemma frequency_factor_simps:
  "l_risk_factors (frequency_factor recent s) =
     l_risk_factors s @ [frequency_risk (length recent) * 0.2]"
  "l_flags (frequency_factor recent s) =
     l_flags s @ (if length recent \<ge> 5 then [''High transaction frequency''] else [])"
  "l_recommendations (frequency_factor recent s) = l_recommendations s"
  by (simp_all add: frequency_factor_def frequency_risk_def Let_def)

lemma cross_border_factor_simps:
  "l_risk_factors (cross_border_factor t s) =
     l_risk_factors s @ [cross_border_risk (is_cross_border t) * 0.15]"
  "l_flags (cross_border_factor t s) =
     l_flags s @ (if is_cross_border t then [''Cross-border transaction''] else [])"
  "l_recommendations (cross_border_factor t s) =
     l_recommendations s @
       (if is_cross_border t then [''Verify compliance with international regulations''] else [])"
  by (simp_all add: cross_border_factor_def cross_border_risk_def Let_def)

lemma time_factor_simps:
  "l_risk_factors (time_factor t s) =
     l_risk_factors s @ [time_risk (hour (timestamp t)) * 0.1]"
  "l_flags (time_factor t s) =
     l_flags s @ (if hour (timestamp t) < 6 \<or> hour (timestamp t) > 22
                  then [''Transaction outside business hours''] else [])"
  "l_recommendations (time_factor t s) = l_recommendations s"
  by (simp_all add: time_factor_def time_risk_def Let_def)

lemma payment_method_factor_simps:
  "l_risk_factors (payment_method_factor t s) =
     l_risk_factors s @ [payment_risk (payment_method t) * 0.15]"
  "l_flags (payment_method_factor t s) =
     l_flags s @ (if payment_method t = ''crypto'' \<or> payment_method t = ''anonymous''
                  then [''High-risk payment method''] else [])"
  "l_recommendations (payment_method_factor t s) = l_recommendations s"
  by (simp_all add: payment_method_factor_def payment_risk_def Let_def)

lemma asset_type_factor_simps:
  "l_risk_factors (asset_type_factor t s) =
     l_risk_factors s @ [asset_risk (asset_type t) * 0.1]"
  "l_flags (asset_type_factor t s) =
     l_flags s @ (if asset_type t = ''art'' \<or> asset_type t = ''luxury''
                     \<or> asset_type t = ''collectibles''
                  then [''High-risk asset type''] else [])"
  "l_recommendations (asset_type_factor t s) = l_recommendations s"
  by (simp_all add: asset_type_factor_def asset_risk_def Let_def)

lemmas tx_block_simps =
  amount_factor_simps frequency_factor_simps cross_border_factor_simps time_factor_simps
  payment_method_factor_simps asset_type_factor_simps

lemma tx_factors_sum:
  "sum_list (l_risk_factors (tx_factors recent t)) = tx_risk_sum (length recent) t"
  by (simp add: tx_factors_def tx_risk_sum_def tx_block_simps)


lemma tx_factors_flags:
  "l_flags (tx_factors recent t) =
     (if amount t > 50000 then [''Large transaction amount''] else [])
     @ (if length recent \<ge> 5 then [''High transaction frequency''] else [])
     @ (if is_cross_border t then [''Cross-border transaction''] else [])
     @ (if hour (timestamp t) < 6 \<or> hour (timestamp t) > 22
        then [''Transaction outside business hours''] else [])
     @ (if payment_method t = ''crypto'' \<or> payment_method t = ''anonymous''
        then [''High-risk payment method''] else [])
     @ (if asset_type t = ''art'' \<or> asset_type t = ''luxury'' \<or> asset_type t = ''collectibles''
        then [''High-risk asset type''] else [])"
  by (simp add: tx_factors_def tx_block_simps)

lemma list_range_all: "list_range xs 0 (- 1) = xs"
  by (simp add: list_range_def Let_def)

lemma list_range_prefix: "0 \<le> k \<Longrightarrow> list_range xs 0 k = take (nat (k + 1)) xs"
  by (cases xs) (auto simp: list_range_def Let_def min_def)

lemma lrange_all: "lrange r (history_key uid) 0 (- 1) = window r uid"
  by (simp add: lrange_def window_def list_range_all split: option.splits)

lemma lrange_recent: "lrange r (history_key uid) 0 9 = take 10 (window r uid)"
  by (simp add: lrange_def window_def list_range_prefix split: option.splits)

lemma history_write:
  "expire (ltrim (lpush r key v) key 0 19) key n =
     r\<lparr>lists := (lists r)(key \<mapsto> take 20 (v # (case lists r key of None \<Rightarrow> [] | Some xs \<Rightarrow> xs))),
       ttl := (ttl r)(key \<mapsto> n)\<rparr>"
  by (simp add: expire_def ltrim_def lpush_def list_range_prefix Let_def split: option.splits)

lemma tx_assessment_score:
  "risk_score (fst (calculate_transaction_risk_score r t)) =
     min (max (tx_risk_sum (length (take 10 (window r (tx_user_id t)))) t) 0) 1"
  using tx_factors_sum [of "take 10 (window r (tx_user_id t))" t]
  by (simp add: calculate_transaction_risk_score_def Let_def final_score_def tx_factors_def
      lrange_recent)

lemma tx_assessment_level:
  "risk_level (fst (calculate_transaction_risk_score r t)) =
     determine_risk_level (risk_score (fst (calculate_transaction_risk_score r t)))"
  by (simp add: calculate_transaction_risk_score_def Let_def)


lemma tx_assessment_flags:
  "flags (fst (calculate_transaction_risk_score r t)) =
     l_flags (tx_factors (take 10 (window r (tx_user_id t))) t)"
  by (simp add: calculate_transaction_risk_score_def Let_def tx_factors_def lrange_recent)

lemma tx_store:
  "snd (calculate_transaction_risk_score r t) =
     r\<lparr>lists := (lists r)(history_key (tx_user_id t) \<mapsto>
            take 20 (tx_record t (risk_score (fst (calculate_transaction_risk_score r t)))
                     # window r (tx_user_id t))),
       ttl := (ttl r)(history_key (tx_user_id t) \<mapsto> 86400 * 30)\<rparr>"
  by (simp add: calculate_transaction_risk_score_def Let_def history_write window_def)

lemma history_key_inj [simp]: "history_key u = history_key v \<longleftrightarrow> u = v"
  by (simp add: history_key_def)

lemma window_after:
  "window (snd (calculate_transaction_risk_score r t)) u =
     (if u = tx_user_id t
      then take 20 (tx_record t (risk_score (fst (calculate_transaction_risk_score r t)))
                    # window r u)
      else window r u)"
  by (simp add: tx_store window_def)

lemma worst_user_sum:
  "user_risk_sum (check_ip_reputation (ip_address worst_user)) worst_user = 0.71"
  by (simp add: user_risk_sum_def worst_user_def ip_risk_of_check account_age_risk_def
      tx_risk_def volume_risk_def login_risk_def kyc_risk_def)

section \<open>C1: the risk level is the classification of the score\<close>

text \<open>
  C1, as stated: the level both scorers return is the classification of the score by the
  table \<^verbatim>\<open>{low: 0.0, medium: 0.3, high: 0.6, critical: 0.8}\<close>. It fails: the user
  \<open>worst_user\<close> scores 0.71, which that table calls \<^verbatim>\<open>high\<close>, and the scorer
  returns \<^verbatim>\<open>medium\<close>.
\<close>

theorem risk_level_spec_table_counterexample:
  "risk_level (calculate_user_risk_score worst_user)
     \<noteq> spec_risk_level (risk_score (calculate_user_risk_score worst_user))"
  by (simp add: calculate_user_risk_score_def user_risk_assessment_level
      user_risk_assessment_score worst_user_sum determine_risk_level_eq spec_risk_level_def)

lemma clamp_bounds: "0 \<le> min (max x 0) (1::real)" "min (max x 0) (1::real) \<le> 1"
  by simp_all

text \<open>
  C1, amended: for every request to either scorer (and every state of the store) the
  score lies in \<open>[0, 1]\<close> and the level is its classification by the table of the
  source, \<^verbatim>\<open>{medium: 0.6, high: 0.8, critical: 0.95}\<close>: \<^verbatim>\<open>critical\<close> from 0.95,
  \<^verbatim>\<open>high\<close> from 0.8, \<^verbatim>\<open>medium\<close> from 0.6 and \<^verbatim>\<open>low\<close> below 0.6. The key
  \<^verbatim>\<open>low\<close> of the table (0.3) is never read.
\<close>

theorem risk_level_code_table:
  "0 \<le> risk_score (calculate_user_risk_score d)
   \<and> risk_score (calculate_user_risk_score d) \<le> 1
   \<and> risk_level (calculate_user_risk_score d) =
       (if risk_score (calculate_user_risk_score d) \<ge> 0.95 then ''critical''
        else if risk_score (calculate_user_risk_score d) \<ge> 0.8 then ''high''
        else if risk_score (calculate_user_risk_score d) \<ge> 0.6 then ''medium''
        else ''low'')
   \<and> 0 \<le> risk_score (fst (calculate_transaction_risk_score r t))
   \<and> risk_score (fst (calculate_transaction_risk_score r t)) \<le> 1
   \<and> risk_level (fst (calculate_transaction_risk_score r t)) =
       (if risk_score (fst (calculate_transaction_risk_score r t)) \<ge> 0.95 then ''critical''
        else if risk_score (fst (calculate_transaction_risk_score r t)) \<ge> 0.8 then ''high''
        else if risk_score (fst (calculate_transaction_risk_score r t)) \<ge> 0.6 then ''medium''
        else ''low'')"
proof -
  have u: "risk_level (calculate_user_risk_score d) =
      determine_risk_level (risk_score (calculate_user_risk_score d))"
    unfolding calculate_user_risk_score_def by (rule user_risk_assessment_level)
  have ub: "0 \<le> risk_score (calculate_user_risk_score d)"
    "risk_score (calculate_user_risk_score d) \<le> 1"
    by (simp_all add: calculate_user_risk_score_def user_risk_assessment_score)
  have tb: "0 \<le> risk_score (fst (calculate_transaction_risk_score r t))"
    "risk_score (fst (calculate_transaction_risk_score r t)) \<le> 1"
    by (simp_all add: tx_assessment_score)
  show ?thesis
    using ub tb unfolding u tx_assessment_level [of r t] determine_risk_level_eq by simp
qed

lemma worst_tx_sum: "tx_risk_sum 0 worst_tx = 0.54"
  by (simp add: tx_risk_sum_def worst_tx_def night_time_def amount_risk_def frequency_risk_def
      cross_border_risk_def time_risk_def payment_risk_def asset_risk_def)

lemma window_empty_redis [simp]: "window empty_redis u = []"
  by (simp add: window_def empty_redis_def)

theorem risk_level_code_table_witness:
  "risk_score (calculate_user_risk_score worst_user) = 0.71
   \<and> risk_level (calculate_user_risk_score worst_user) = ''medium''
   \<and> risk_score (fst (calculate_transaction_risk_score empty_redis worst_tx)) = 0.54
   \<and> risk_level (fst (calculate_transaction_risk_score empty_redis worst_tx)) = ''low''"
proof -
  have s: "risk_score (calculate_user_risk_score worst_user) = 0.71"
    by (simp add: calculate_user_risk_score_def user_risk_assessment_score worst_user_sum)
  have t: "risk_score (fst (calculate_transaction_risk_score empty_redis worst_tx)) = 0.54"
    by (simp add: tx_assessment_score worst_tx_sum)
  show ?thesis
    using risk_level_code_table [of worst_user empty_redis worst_tx] unfolding s t by simp
qed


section \<open>C2: the scores never reach the level high\<close>









section \<open>C10: the suspicious-IP flag is unreachable\<close>


section \<open>C3: the worst user profile\<close>






section \<open>C4: the worst transaction profile\<close>

lemma worst_tx_profile_sum:
  assumes "amount t = 60000" "payment_method t = ''crypto''" "is_cross_border t"
    "asset_type t = ''art''" "hour (timestamp t) = 2"
  shows "tx_risk_sum 0 t = 0.54"
  using assms
  by (simp add: tx_risk_sum_def amount_risk_def frequency_risk_def cross_border_risk_def
      time_risk_def payment_risk_def asset_risk_def)

text \<open>
  C4, as stated: a transaction with \<^verbatim>\<open>amount=60000\<close>, \<^verbatim>\<open>payment_method="crypto"\<close>,
  \<^verbatim>\<open>is_cross_border=true\<close>, \<^verbatim>\<open>asset_type="art"\<close> at hour 2, for a user with no
  history, gets a level of at least \<^verbatim>\<open>high\<close>. It fails: \<open>worst_tx\<close> is such a
  transaction, and on the empty store it scores 0.54 and gets the level \<^verbatim>\<open>low\<close>.
\<close>

theorem worst_transaction_high_counterexample:
  "amount worst_tx = 60000 \<and> payment_method worst_tx = ''crypto'' \<and> is_cross_border worst_tx
   \<and> asset_type worst_tx = ''art'' \<and> hour (timestamp worst_tx) = 2
   \<and> window empty_redis (tx_user_id worst_tx) = []
   \<and> risk_level (fst (calculate_transaction_risk_score empty_redis worst_tx)) \<noteq> ''high''
   \<and> risk_level (fst (calculate_transaction_risk_score empty_redis worst_tx)) \<noteq> ''critical''"
proof -
  have w: "amount worst_tx = 60000" "payment_method worst_tx = ''crypto''"
    "is_cross_border worst_tx" "asset_type worst_tx = ''art''" "hour (timestamp worst_tx) = 2"
    by (simp_all add: worst_tx_def night_time_def)
  have s: "risk_score (fst (calculate_transaction_risk_score empty_redis worst_tx)) = 0.54"
    by (simp add: tx_assessment_score worst_tx_profile_sum [OF w])
  have l: "risk_level (fst (calculate_transaction_risk_score empty_redis worst_tx)) = ''low''"
    by (simp add: tx_assessment_level s determine_risk_level_eq)
  show ?thesis using w l by simp
qed

text \<open>
  C4, amended: every such transaction of a user with no stored history gets the score
  0.54 and the level \<^verbatim>\<open>low\<close>, with the flags of its five factors in the top bucket.
\<close>

theorem worst_transaction_assessment:
  assumes "amount t = 60000" and "payment_method t = ''crypto''" and "is_cross_border t"
    and "asset_type t = ''art''" and "hour (timestamp t) = 2"
    and "window r (tx_user_id t) = []"
  shows "risk_score (fst (calculate_transaction_risk_score r t)) = 0.54
    \<and> risk_level (fst (calculate_transaction_risk_score r t)) = ''low''
    \<and> flags (fst (calculate_transaction_risk_score r t)) =
        [''Large transaction amount'', ''Cross-border transaction'',
         ''Transaction outside business hours'', ''High-risk payment method'',
         ''High-risk asset type'']"
proof -
  have s: "risk_score (fst (calculate_transaction_risk_score r t)) = 0.54"
    by (simp add: tx_assessment_score assms(6) worst_tx_profile_sum [OF assms(1-5)])
  have l: "risk_level (fst (calculate_transaction_risk_score r t)) = ''low''"
    by (simp add: tx_assessment_level s determine_risk_level_eq)
  have f: "flags (fst (calculate_transaction_risk_score r t)) =
        [''Large transaction amount'', ''Cross-border transaction'',
         ''Transaction outside business hours'', ''High-risk payment method'',
         ''High-risk asset type'']"
    by (simp add: tx_assessment_flags tx_factors_flags assms)
  from s l f show ?thesis by blast
qed

theorem worst_transaction_assessment_witness:
  "amount worst_tx = 60000 \<and> payment_method worst_tx = ''crypto'' \<and> is_cross_border worst_tx
   \<and> asset_type worst_tx = ''art'' \<and> hour (timestamp worst_tx) = 2
   \<and> window empty_redis (tx_user_id worst_tx) = []
   \<and> risk_score (fst (calculate_transaction_risk_score empty_redis worst_tx)) = 0.54
   \<and> risk_level (fst (calculate_transaction_risk_score empty_redis worst_tx)) = ''low''"
proof -
  have w: "amount worst_tx = 60000" "payment_method worst_tx = ''crypto''"
    "is_cross_border worst_tx" "asset_type worst_tx = ''art''" "hour (timestamp worst_tx) = 2"
    by (simp_all add: worst_tx_def night_time_def)
  have e: "window empty_redis (tx_user_id worst_tx) = []"
    by simp
  show ?thesis
    using w e worst_transaction_assessment [OF w e] by simp
qed

section \<open>C7: monotonicity of the scorers\<close>

lemma account_age_risk_antimono: "a \<le> b \<Longrightarrow> account_age_risk b \<le> account_age_risk a"
  by (simp add: account_age_risk_def)

lemma amount_risk_mono: "a \<le> b \<Longrightarrow> amount_risk a \<le> amount_risk b"
  by (simp add: amount_risk_def)

lemma clamp_mono: "x \<le> y \<Longrightarrow> min (max x 0) (1::real) \<le> min (max y 0) 1"
  by simp

text \<open>
  C7: raising \<^verbatim>\<open>account_age_days\<close> of a user request, all other fields kept, does not
  raise the score; raising \<^verbatim>\<open>amount\<close> of a transaction, all other fields and the stored
  history kept, does not lower the score.
\<close>

theorem scorers_monotone:
  "(account_age_days d \<le> a \<longrightarrow>
      risk_score (calculate_user_risk_score (d\<lparr>account_age_days := a\<rparr>))
        \<le> risk_score (calculate_user_risk_score d))
   \<and> (amount t \<le> b \<longrightarrow>
      risk_score (fst (calculate_transaction_risk_score r t))
        \<le> risk_score (fst (calculate_transaction_risk_score r (t\<lparr>amount := b\<rparr>))))"
proof (intro conjI impI)
  assume le: "account_age_days d \<le> a"
  have m: "user_risk_sum (check_ip_reputation (ip_address d)) (d\<lparr>account_age_days := a\<rparr>)
      \<le> user_risk_sum (check_ip_reputation (ip_address d)) d"
    using account_age_risk_antimono [OF le] by (simp add: user_risk_sum_def)
  have k: "ip_address (d\<lparr>account_age_days := a\<rparr>) = ip_address d"
    by simp
  show "risk_score (calculate_user_risk_score (d\<lparr>account_age_days := a\<rparr>))
      \<le> risk_score (calculate_user_risk_score d)"
    unfolding calculate_user_risk_score_def user_risk_assessment_score k
    by (rule clamp_mono [OF m])
next
  assume le: "amount t \<le> b"
  have m: "tx_risk_sum n t \<le> tx_risk_sum n (t\<lparr>amount := b\<rparr>)" for n
    using amount_risk_mono [OF le] by (simp add: tx_risk_sum_def)
  have k: "tx_user_id (t\<lparr>amount := b\<rparr>) = tx_user_id t"
    by simp
  show "risk_score (fst (calculate_transaction_risk_score r t))
      \<le> risk_score (fst (calculate_transaction_risk_score r (t\<lparr>amount := b\<rparr>)))"
    unfolding tx_assessment_score k by (rule clamp_mono [OF m])
qed

theorem scorers_monotone_witness:
  "account_age_days steady_user \<le> 400
   \<and> risk_score (calculate_user_risk_score (steady_user\<lparr>account_age_days := 400\<rparr>)) = 0.18
   \<and> risk_score (calculate_user_risk_score steady_user) = 0.255
   \<and> amount small_tx \<le> 60000
   \<and> risk_score (fst (calculate_transaction_risk_score empty_redis small_tx)) = 0.17
   \<and> risk_score (fst (calculate_transaction_risk_score empty_redis (small_tx\<lparr>amount := 60000\<rparr>)))
       = 0.35"
proof -
  have a: "account_age_days steady_user \<le> 400" and b: "amount small_tx \<le> 60000"
    by (simp_all add: steady_user_def small_tx_def)
  have u: "risk_score (calculate_user_risk_score (steady_user\<lparr>account_age_days := 400\<rparr>)) = 0.18"
    "risk_score (calculate_user_risk_score steady_user) = 0.255"
    by (simp_all add: calculate_user_risk_score_def user_risk_assessment_score
        user_risk_sum_def ip_risk_of_check steady_user_def account_age_risk_def tx_risk_def
        volume_risk_def login_risk_def kyc_risk_def)
  have t: "risk_score (fst (calculate_transaction_risk_score empty_redis small_tx)) = 0.17"
    "risk_score (fst (calculate_transaction_risk_score empty_redis (small_tx\<lparr>amount := 60000\<rparr>)))
       = 0.35"
    by (simp_all add: tx_assessment_score tx_risk_sum_def small_tx_def noon_def amount_risk_def
        frequency_risk_def cross_border_risk_def time_risk_def payment_risk_def
        asset_risk_def)
  show ?thesis
    using a b u t scorers_monotone [of steady_user 400 small_tx 60000 empty_redis] by simp
qed

section \<open>C8: the history window\<close>










section \<open>C5 and C6: the stats reporter\<close>

lemma stats_loop_eq:
  "stats_loop es (scores, n) =
     (scores @ map entry_score es,
      n + int (length (filter (\<lambda>e. entry_score e \<ge> 0.8) es)))"
  by (induction es arbitrary: scores n)
    (simp_all add: Let_def entry_score_def threshold_values)

lemma stats_no_history:
  "window r uid = [] \<Longrightarrow>
   get_user_risk_stats r uid =
     [''user_id'' \<mapsto> PyStr uid, ''transaction_count'' \<mapsto> PyInt 0,
      ''average_risk_score'' \<mapsto> PyFloat 0, ''high_risk_transactions'' \<mapsto> PyInt 0]"
  by (simp add: get_user_risk_stats_def lrange_all Let_def)

lemma stats_history:
  "window r uid \<noteq> [] \<Longrightarrow>
   get_user_risk_stats r uid =
     [''user_id'' \<mapsto> PyStr uid,
      ''transaction_count'' \<mapsto> PyInt (int (length (window r uid))),
      ''average_risk_score'' \<mapsto> PyFloat (mean (map entry_score (window r uid))),
      ''high_risk_transactions'' \<mapsto>
         PyInt (int (length (filter (\<lambda>e. entry_score e \<ge> 0.8) (window r uid)))),
      ''risk_trend'' \<mapsto>
         PyStr (if length (window r uid) > 1
                   \<and> entry_score (hd (window r uid)) > entry_score (last (window r uid))
                then ''increasing'' else ''stable'')]"
  by (simp add: get_user_risk_stats_def lrange_all Let_def stats_loop_eq hd_conv_nth
      last_map nth_map)

lemma stats_trend:
  "window r uid \<noteq> [] \<Longrightarrow>
   get_user_risk_stats r uid ''risk_trend'' =
     Some (PyStr (if length (window r uid) > 1
                   \<and> entry_score (hd (window r uid)) > entry_score (last (window r uid))
                then ''increasing'' else ''stable''))"
  by (simp add: stats_history)

lemma entry_score_tx_record [simp]: "entry_score (tx_record t x) = x"
  by (simp add: entry_score_def tx_record_def get_float_def)

lemma small_tx_score:
  "risk_score (fst (calculate_transaction_risk_score empty_redis small_tx)) = 0.17"
  by (simp add: tx_assessment_score tx_risk_sum_def small_tx_def noon_def amount_risk_def
      frequency_risk_def cross_border_risk_def time_risk_def payment_risk_def asset_risk_def)

lemma worst_after_small_score:
  "risk_score (fst (calculate_transaction_risk_score
      (snd (calculate_transaction_risk_score empty_redis small_tx)) worst_tx)) = 0.54"
  by (simp add: tx_assessment_score window_after tx_risk_sum_def small_tx_def worst_tx_def
      night_time_def amount_risk_def frequency_risk_def cross_border_risk_def time_risk_def
      payment_risk_def asset_risk_def)

lemma two_evaluations_window:
  "window two_evaluations ''u-1'' = [tx_record worst_tx 0.54, tx_record small_tx 0.17]"
proof -
  have u: "tx_user_id small_tx = ''u-1''" "tx_user_id worst_tx = ''u-1''"
    by (simp_all add: small_tx_def worst_tx_def)
  show ?thesis
    unfolding two_evaluations_def
    by (simp add: window_after u small_tx_score worst_after_small_score)
qed

text \<open>
  C5, as stated: with at least two stored entries, the trend is \<^verbatim>\<open>increasing\<close> exactly
  when the oldest entry's score is greater than the most recent entry's. It fails: after
  \<open>small_tx\<close> (score 0.17) and then \<open>worst_tx\<close> (score 0.54) the store holds the two
  entries, the newer one first; the oldest score is not greater than the most recent one,
  and the trend is \<^verbatim>\<open>increasing\<close>.
\<close>

theorem trend_oldest_greater_counterexample:
  "risk_score (fst (calculate_transaction_risk_score empty_redis small_tx)) = 0.17
   \<and> risk_score (fst (calculate_transaction_risk_score
        (snd (calculate_transaction_risk_score empty_redis small_tx)) worst_tx)) = 0.54
   \<and> map entry_score (window two_evaluations ''u-1'') = [0.54, 0.17]
   \<and> \<not> entry_score (last (window two_evaluations ''u-1''))
        > entry_score (hd (window two_evaluations ''u-1''))
   \<and> get_user_risk_stats two_evaluations ''u-1'' ''risk_trend'' = Some (PyStr ''increasing'')"
  using small_tx_score worst_after_small_score
  by (simp add: two_evaluations_window stats_trend)

text \<open>
  C5, amended: with at least two stored entries, the trend is \<^verbatim>\<open>increasing\<close> exactly
  when the most recent entry's score is greater than the oldest stored entry's, and
  \<^verbatim>\<open>stable\<close> otherwise. The stored list is read from its head, and the head is the
  entry of the latest evaluation.
\<close>

theorem trend_newest_greater:
  "(length (window r uid) \<ge> 2 \<longrightarrow>
      get_user_risk_stats r uid ''risk_trend'' =
        Some (PyStr (if entry_score (hd (window r uid)) > entry_score (last (window r uid))
                     then ''increasing'' else ''stable'')))
   \<and> hd (window (snd (calculate_transaction_risk_score r t)) (tx_user_id t)) =
        tx_record t (risk_score (fst (calculate_transaction_risk_score r t)))"
proof (intro conjI impI)
  assume "length (window r uid) \<ge> 2"
  then have "window r uid \<noteq> []" "length (window r uid) > 1"
    by auto
  then show "get_user_risk_stats r uid ''risk_trend'' =
        Some (PyStr (if entry_score (hd (window r uid)) > entry_score (last (window r uid))
                     then ''increasing'' else ''stable''))"
    by (simp add: stats_trend)
next
  show "hd (window (snd (calculate_transaction_risk_score r t)) (tx_user_id t)) =
        tx_record t (risk_score (fst (calculate_transaction_risk_score r t)))"
    by (simp add: window_after)
qed

theorem trend_newest_greater_witness:
  "length (window two_evaluations ''u-1'') \<ge> 2
   \<and> entry_score (hd (window two_evaluations ''u-1'')) = 0.54
   \<and> entry_score (last (window two_evaluations ''u-1'')) = 0.17
   \<and> get_user_risk_stats two_evaluations ''u-1'' ''risk_trend'' = Some (PyStr ''increasing'')"
  using trend_newest_greater [of two_evaluations "''u-1''"]
  by (simp add: two_evaluations_window)

text \<open>
  C6: for a user with no stored entries the endpoint is to return the five fields of the
  stats response. The early return of lines 460-466 gives four: there is no
  \<^verbatim>\<open>risk_trend\<close>, which the return of lines 479-485 has.
\<close>

theorem stats_no_history_lacks_trend:
  "window empty_redis ''u-1'' = []
   \<and> get_user_risk_stats empty_redis ''u-1'' ''risk_trend'' = None
   \<and> dom (get_user_risk_stats empty_redis ''u-1'') =
       {''user_id'', ''transaction_count'', ''average_risk_score'', ''high_risk_transactions''}
   \<and> get_user_risk_stats empty_redis ''u-1'' ''transaction_count'' = Some (PyInt 0)
   \<and> get_user_risk_stats empty_redis ''u-1'' ''average_risk_score'' = Some (PyFloat 0)
   \<and> get_user_risk_stats empty_redis ''u-1'' ''high_risk_transactions'' = Some (PyInt 0)
   \<and> get_user_risk_stats two_evaluations ''u-1'' ''risk_trend'' \<noteq> None"
proof -
  have e: "window empty_redis ''u-1'' = []"
    by simp
  have d: "dom (get_user_risk_stats empty_redis ''u-1'') =
       {''user_id'', ''transaction_count'', ''average_risk_score'', ''high_risk_transactions''}"
    unfolding stats_no_history [OF e] by (simp add: insert_commute)
  have t: "get_user_risk_stats two_evaluations ''u-1'' ''risk_trend'' \<noteq> None"
    by (simp add: two_evaluations_window stats_trend)
  show ?thesis
    using e d t by (simp add: stats_no_history [OF e])
qed

section \<open>C9: the reputation of private and loopback addresses\<close>

















end
